theory Spec2Isabelle
  imports Complex_Main "HOL-Library.List_Lexorder" "HOL-Library.Char_ord"
begin

section \<open>Matplotlib annotation plots of holoviews\<close>

text \<open>
  A shallow embedding of \<^verbatim>\<open>holoviews/plotting/mpl/annotation.py\<close>.
  Python floats and numpy floats are idealised as \<^typ>\<open>real\<close>: rounding is not
  modelled, and the IEEE special values appear only where the source produces them on
  purpose or by a division by zero. The matplotlib axis is an opaque recorder of the
  calls made on it: a registry of artists with their identities, the view limits, the
  connected callbacks and a log of the redraw requests.
\<close>

subsection \<open>Python values, dictionaries and errors\<close>

datatype error =
    UnboundLocalError string
  | KeyError string
  | TypeError
  | IndexError
  | AttributeError
  | ValueError
  | AbbreviatedException error

text \<open>
  A numpy array is either numeric, with the character of its \<^verbatim>\<open>dtype.kind\<close>
  (\<^verbatim>\<open>'i'\<close>, \<^verbatim>\<open>'f'\<close>, \<^verbatim>\<open>'u'\<close>, \<^verbatim>\<open>'b'\<close>, ...), or an array of
  strings (kind \<^verbatim>\<open>'U'\<close>).
\<close>

datatype ndarray = NumArray char "real list" | StrArray "string list"

text \<open>What a colormap is called with: a fraction, an index into its table, or a special float.\<close>

datatype cmap_arg = Fraction real | Index nat | NaN | PosInf | NegInf

type_synonym rgba = "real \<times> real \<times> real \<times> real"

datatype scalar = Num real | Str string

datatype pyval =
    Val scalar
  | Arr ndarray
  | Cmap "cmap_arg \<Rightarrow> rgba"
  | Rgba rgba

text \<open>A Python dict keeps its keys in insertion order; keys are unique.\<close>

type_synonym dict = "(string \<times> pyval) list"

definition dict_get :: "dict \<Rightarrow> string \<Rightarrow> pyval option" where
  "dict_get d k = map_of d k"

definition dict_contains :: "dict \<Rightarrow> string \<Rightarrow> bool" where
  "dict_contains d k = (k \<in> set (map fst d))"

fun dict_set :: "string \<Rightarrow> pyval \<Rightarrow> dict \<Rightarrow> dict" where
  "dict_set k v [] = [(k, v)]"
| "dict_set k v ((k', v') # d) =
     (if k = k' then (k, v) # d else (k', v') # dict_set k v d)"

definition dict_del :: "string \<Rightarrow> dict \<Rightarrow> dict" where
  "dict_del k d = filter (\<lambda>kv. fst kv \<noteq> k) d"

text \<open>\<^verbatim>\<open>{k: opts[k] for k in ks if k in opts}\<close>\<close>

definition dict_select :: "string list \<Rightarrow> dict \<Rightarrow> dict" where
  "dict_select ks d =
     concat (map (\<lambda>k. case map_of d k of None \<Rightarrow> [] | Some v \<Rightarrow> [(k, v)]) ks)"

text \<open>\<^verbatim>\<open>dict(a, **b)\<close>\<close>

definition dict_merge :: "dict \<Rightarrow> dict \<Rightarrow> dict" where
  "dict_merge a b = fold (\<lambda>kv. dict_set (fst kv) (snd kv)) b a"

subsection \<open>The axis\<close>

datatype artist =
    AxVLine real dict
  | AxHLine real dict
  | AxVSpan real real dict
  | AxHSpan real real dict
  | ABLine2D real real "real list" "real list" dict
  | TextArtist scalar scalar string dict
  | AnnotationArtist string "real \<times> real" "real \<times> real" dict dict
  | PathPatch "(real \<times> real) list" "nat list" dict
  | Scatter "scalar list" "scalar list"

text \<open>
  \<^const>\<open>ABLine2D\<close> holds slope, intercept, the x and y data and the keyword arguments.
  \<^const>\<open>AnnotationArtist\<close> holds the text, \<^verbatim>\<open>xy\<close>, \<^verbatim>\<open>xytext\<close> (in offset
  points, centred), the arrow properties and the text options. \<^const>\<open>PathPatch\<close> has no
  face colour. \<^const>\<open>Scatter\<close> is the marker plot of size and opacity zero.
\<close>

datatype render_event = CanvasDraw | DrawArtist nat

record axis =
  artists :: "(nat \<times> artist) list"
  next_id :: nat
  xlim :: "real \<times> real"
  callbacks :: "(string \<times> nat) list"
  render_log :: "render_event list"

text \<open>Creating an artist on the axis gives it a fresh identity, which is its handle.\<close>

definition add_artist :: "artist \<Rightarrow> axis \<Rightarrow> nat \<times> axis" where
  "add_artist a ax =
     (next_id ax, ax\<lparr>artists := artists ax @ [(next_id ax, a)], next_id := Suc (next_id ax)\<rparr>)"

text \<open>\<^verbatim>\<open>element.remove()\<close>: an artist that is not on the axis cannot be removed.\<close>

definition remove_artist :: "nat \<Rightarrow> axis \<Rightarrow> error + axis" where
  "remove_artist h ax =
     (if h \<in> set (map fst (artists ax))
      then Inr (ax\<lparr>artists := filter (\<lambda>ia. fst ia \<noteq> h) (artists ax)\<rparr>)
      else Inl ValueError)"

text \<open>\<^verbatim>\<open>get_xbound\<close>: the two view limits in increasing order.\<close>

definition get_xbound :: "axis \<Rightarrow> real \<times> real" where
  "get_xbound ax = (if fst (xlim ax) < snd (xlim ax) then (fst (xlim ax), snd (xlim ax))
                    else (snd (xlim ax), fst (xlim ax)))"

subsection \<open>ABLine2D\<close>

text \<open>
  \<^verbatim>\<open>ABLine2D._update_lim\<close>. An artist that is no longer on an axis has no
  \<^verbatim>\<open>axes\<close> to ask for the bounds.
\<close>

definition update_lim :: "nat \<Rightarrow> axis \<Rightarrow> error + axis" where
  "update_lim h ax =
     (case map_of (artists ax) h of
        Some (ABLine2D slope intercept xd yd kw) \<Rightarrow>
          (let x = [fst (get_xbound ax), snd (get_xbound ax)];
               y = map (\<lambda>v. (slope * v) + intercept) x
           in Inr (ax\<lparr>artists := map (\<lambda>ia. if fst ia = h
                                              then (h, ABLine2D slope intercept x y kw) else ia)
                                      (artists ax),
                       render_log := render_log ax @ [DrawArtist h]\<rparr>))
      | _ \<Rightarrow> Inl AttributeError)"

text \<open>\<^verbatim>\<open>ABLine2D.__init__\<close>\<close>

definition ABLine2D_init :: "real \<Rightarrow> real \<Rightarrow> dict \<Rightarrow> axis \<Rightarrow> error + (nat \<times> axis)" where
  "ABLine2D_init slope intercept kw ax =
     (let (h, ax1) = add_artist (ABLine2D slope intercept [] [] kw) ax;
          ax2 = ax1\<lparr>render_log := render_log ax1 @ [CanvasDraw]\<rparr>
      in case update_lim h ax2 of
           Inl e \<Rightarrow> Inl e
         | Inr ax3 \<Rightarrow>
             Inr (h, ax3\<lparr>callbacks := callbacks ax3 @
                                        [(''xlim_changed'', h), (''ylim_changed'', h)]\<rparr>))"

subsection \<open>AnnotationPlot and its subclasses\<close>

record plot =
  invert_axes :: bool
  handles_annotations :: "nat list"
  warnings :: "string list"

datatype annotation_data =
    VLineData real
  | HLineData real
  | VSpanData real real
  | HSpanData real real
  | SlopeData real real
  | TextData real real string real string string real
  | ArrowData real real string string real string
  | SplineData "(real \<times> real) list" "nat list"

definition VLinePlot_draw_annotation :: "plot \<Rightarrow> axis \<Rightarrow> real \<Rightarrow> dict \<Rightarrow> nat list \<times> axis" where
  "VLinePlot_draw_annotation p ax position opts =
     (if invert_axes p
      then (let (h, ax') = add_artist (AxHLine position opts) ax in ([h], ax'))
      else (let (h, ax') = add_artist (AxVLine position opts) ax in ([h], ax')))"

definition HLinePlot_draw_annotation :: "plot \<Rightarrow> axis \<Rightarrow> real \<Rightarrow> dict \<Rightarrow> nat list \<times> axis" where
  "HLinePlot_draw_annotation p ax position opts =
     (if invert_axes p
      then (let (h, ax') = add_artist (AxVLine position opts) ax in ([h], ax'))
      else (let (h, ax') = add_artist (AxHLine position opts) ax in ([h], ax')))"

definition VSpanPlot_draw_annotation ::
  "plot \<Rightarrow> axis \<Rightarrow> real \<times> real \<Rightarrow> dict \<Rightarrow> nat list \<times> axis" where
  "VSpanPlot_draw_annotation p ax positions opts =
     (if invert_axes p
      then (let (h, ax') = add_artist (AxHSpan (fst positions) (snd positions) opts) ax
            in ([h], ax'))
      else (let (h, ax') = add_artist (AxVSpan (fst positions) (snd positions) opts) ax
            in ([h], ax')))"

definition HSpanPlot_draw_annotation ::
  "plot \<Rightarrow> axis \<Rightarrow> real \<times> real \<Rightarrow> dict \<Rightarrow> nat list \<times> axis" where
  "HSpanPlot_draw_annotation p ax positions opts =
     (if invert_axes p
      then (let (h, ax') = add_artist (AxVSpan (fst positions) (snd positions) opts) ax
            in ([h], ax'))
      else (let (h, ax') = add_artist (AxHSpan (fst positions) (snd positions) opts) ax
            in ([h], ax')))"

text \<open>
  The local variables \<^verbatim>\<open>gradient\<close> and \<^verbatim>\<open>intercept\<close> of
  \<^verbatim>\<open>SlopePlot.draw_annotation\<close> after its \<^verbatim>\<open>if\<close>. With inverted axes and a zero
  gradient the source assigns the pair \<^verbatim>\<open>(np.inf, np.inf)\<close> to \<^verbatim>\<open>gradient\<close>.
\<close>

datatype slope_local = Scalar real | InfPair

definition slope_locals :: "bool \<Rightarrow> real \<times> real \<Rightarrow> slope_local \<times> real" where
  "slope_locals inverted position =
     (let gradient = fst position; intercept = snd position
      in if inverted
         then (if gradient = 0 then (InfPair, intercept)
               else (Scalar (1 / gradient), - (intercept / gradient)))
         else (Scalar gradient, intercept))"

definition SlopePlot_draw_annotation ::
  "plot \<Rightarrow> axis \<Rightarrow> real \<times> real \<Rightarrow> dict \<Rightarrow> error + (nat list \<times> axis)" where
  "SlopePlot_draw_annotation p ax position opts =
     (let (gradient, intercept) = slope_locals (invert_axes p) position
      in case ABLine2D_init (fst position) (snd position) opts ax of
           Inl e \<Rightarrow> Inl e
         | Inr (artist, ax') \<Rightarrow> Inr ([artist], ax'))"

definition TextPlot_draw_annotation ::
  "plot \<Rightarrow> axis \<Rightarrow> real \<times> real \<times> string \<times> real \<times> string \<times> string \<times> real \<Rightarrow> dict
   \<Rightarrow> nat list \<times> axis" where
  "TextPlot_draw_annotation p ax data opts =
     (case data of (x0, y0, text, fontsize, horizontalalignment, verticalalignment, rotation) \<Rightarrow>
        (let (x, y) = (if invert_axes p then (y0, x0) else (x0, y0));
             opts' = dict_set ''fontsize'' (Val (Num fontsize)) opts;
             (h, ax') = add_artist
               (TextArtist (Num x) (Num y) text
                  ([(''horizontalalignment'', Val (Str horizontalalignment)),
                    (''verticalalignment'', Val (Str verticalalignment)),
                    (''rotation'', Val (Num rotation))] @ opts')) ax
         in ([h], ax')))"

text \<open>\<^verbatim>\<open>str.lower\<close> on the ASCII letters.\<close>

definition lower_char :: "char \<Rightarrow> char" where
  "lower_char c = (if 65 \<le> (of_char c :: nat) \<and> (of_char c :: nat) \<le> 90
                   then char_of ((of_char c :: nat) + 32) else c)"

definition lower :: "string \<Rightarrow> string" where
  "lower s = map lower_char s"

definition arrow_style_opts :: "string list" where
  "arrow_style_opts = [''alpha'', ''color'', ''lw'', ''linewidth'', ''visible'']"

definition text_style_opts :: "string list" where
  "text_style_opts = [''alpha'', ''color'', ''family'', ''weight'', ''visible'']
                     @ [''textsize'', ''fontsize'']"

definition fontsize_deprecated :: string where
  "fontsize_deprecated =
     ''Arrow fontsize style option is deprecated, use textsize option instead.''"

text \<open>
  \<^verbatim>\<open>ArrowPlot.draw_annotation\<close>. The variable \<^verbatim>\<open>xytext\<close> is assigned in the two
  branches of the \<^verbatim>\<open>if\<close>/\<^verbatim>\<open>elif\<close> only; reading it unassigned raises.
\<close>

definition ArrowPlot_draw_annotation ::
  "plot \<Rightarrow> axis \<Rightarrow> real \<times> real \<times> string \<times> string \<times> real \<times> string \<Rightarrow> dict
   \<Rightarrow> (error + nat list) \<times> plot \<times> axis" where
  "ArrowPlot_draw_annotation p ax data opts =
     (case data of (x0, y0, text, direction0, points, arrowstyle) \<Rightarrow>
        (let (x, y) = (if invert_axes p then (y0, x0) else (x0, y0));
             direction = lower direction0;
             arrowprops = dict_merge [(''arrowstyle'', Val (Str arrowstyle))]
                                     (dict_select arrow_style_opts opts);
             textopts = dict_select text_style_opts opts;
             xytext = (if direction \<in> set [''v'', ''^'']
                       then Some (0, if direction = ''v'' then points else - points)
                       else if direction \<in> set [''>'', ''<'']
                       then Some (if direction = ''<'' then points else - points, 0)
                       else None);
             p' = (if dict_contains textopts ''fontsize''
                   then p\<lparr>warnings := warnings p @ [fontsize_deprecated]\<rparr> else p);
             textopts' = (case dict_get textopts ''textsize'' of
                            Some v \<Rightarrow> dict_set ''fontsize'' v (dict_del ''textsize'' textopts)
                          | None \<Rightarrow> textopts)
         in case xytext of
              None \<Rightarrow> (Inl (UnboundLocalError ''xytext''), p', ax)
            | Some off \<Rightarrow>
                (let (h, ax') = add_artist (AnnotationArtist text (x, y) off arrowprops textopts') ax
                 in (Inr [h], p', ax'))))"

definition SplinePlot_draw_annotation ::
  "plot \<Rightarrow> axis \<Rightarrow> (real \<times> real) list \<times> nat list \<Rightarrow> dict \<Rightarrow> nat list \<times> axis" where
  "SplinePlot_draw_annotation p ax data opts =
     (case data of (verts, codes) \<Rightarrow>
        if length verts = 0 then ([], ax)
        else (let (patch, ax') = add_artist (PathPatch verts codes opts) ax
              in ([patch], ax')))"

text \<open>
  \<^verbatim>\<open>self.draw_annotation\<close>: the element's kind selects the plot class and so the
  method; the data of the element has the shape of its kind.
\<close>

fun draw_annotation ::
  "plot \<Rightarrow> axis \<Rightarrow> annotation_data \<Rightarrow> dict \<Rightarrow> (error + nat list) \<times> plot \<times> axis" where
  "draw_annotation p ax (VLineData position) opts =
     (case VLinePlot_draw_annotation p ax position opts of (hs, ax') \<Rightarrow> (Inr hs, p, ax'))"
| "draw_annotation p ax (HLineData position) opts =
     (case HLinePlot_draw_annotation p ax position opts of (hs, ax') \<Rightarrow> (Inr hs, p, ax'))"
| "draw_annotation p ax (VSpanData a b) opts =
     (case VSpanPlot_draw_annotation p ax (a, b) opts of (hs, ax') \<Rightarrow> (Inr hs, p, ax'))"
| "draw_annotation p ax (HSpanData a b) opts =
     (case HSpanPlot_draw_annotation p ax (a, b) opts of (hs, ax') \<Rightarrow> (Inr hs, p, ax'))"
| "draw_annotation p ax (SlopeData slope intercept) opts =
     (case SlopePlot_draw_annotation p ax (slope, intercept) opts of
        Inl e \<Rightarrow> (Inl e, p, ax)
      | Inr (hs, ax') \<Rightarrow> (Inr hs, p, ax'))"
| "draw_annotation p ax (TextData x y text fontsize ha va rotation) opts =
     (case TextPlot_draw_annotation p ax (x, y, text, fontsize, ha, va, rotation) opts of
        (hs, ax') \<Rightarrow> (Inr hs, p, ax'))"
| "draw_annotation p ax (ArrowData x y text direction points arrowstyle) opts =
     ArrowPlot_draw_annotation p ax (x, y, text, direction, points, arrowstyle) opts"
| "draw_annotation p ax (SplineData verts codes) opts =
     (case SplinePlot_draw_annotation p ax (verts, codes) opts of (hs, ax') \<Rightarrow> (Inr hs, p, ax'))"

subsection \<open>The lifecycle of an annotation\<close>


text \<open>\<^verbatim>\<open>AnnotationPlot.__init__\<close> leaves an empty list of annotation handles.\<close>

definition AnnotationPlot_init :: "bool \<Rightarrow> plot" where
  "AnnotationPlot_init inverted = \<lparr>invert_axes = inverted, handles_annotations = [], warnings = []\<rparr>"

text \<open>
  Two context managers to run the lifecycle with: one raises an abbreviated exception in
  place of the one raised in the block, the other swallows it. And a host whose
  finalization data is the key.
\<close>

definition reraise_abbreviated :: "error \<Rightarrow> error option" where
  "reraise_abbreviated e = Some (AbbreviatedException e)"

definition swallow :: "error \<Rightarrow> error option" where
  "swallow e = None"


text \<open>The loop of \<^verbatim>\<open>update_handles\<close> that removes the stored artists.\<close>

fun remove_handles :: "nat list \<Rightarrow> axis \<Rightarrow> error option \<times> axis" where
  "remove_handles [] ax = (None, ax)"
| "remove_handles (element # rest) ax =
     (case remove_artist element ax of
        Inl e \<Rightarrow> (Some e, ax)
      | Inr ax' \<Rightarrow> remove_handles rest ax')"

text \<open>\<^verbatim>\<open>AnnotationPlot.update_handles\<close>\<close>

definition update_handles ::
  "(error \<Rightarrow> error option) \<Rightarrow> plot \<Rightarrow> 'k \<Rightarrow> axis \<Rightarrow> annotation_data \<Rightarrow> 'r \<Rightarrow> dict
   \<Rightarrow> (error + unit) \<times> plot \<times> axis" where
  "update_handles abbreviated_exception p key ax annotation ranges style =
     (case remove_handles (handles_annotations p) ax of
        (Some e, ax1) \<Rightarrow> (Inl e, p, ax1)
      | (None, ax1) \<Rightarrow>
          (case draw_annotation p ax1 annotation style of
             (Inr handles, p2, ax2) \<Rightarrow> (Inr (), p2\<lparr>handles_annotations := handles\<rparr>, ax2)
           | (Inl e, p2, ax2) \<Rightarrow>
               (case abbreviated_exception e of
                  Some e' \<Rightarrow> (Inl e', p2, ax2)
                | None \<Rightarrow> (Inr (), p2, ax2))))"

text \<open>
  The host calls \<^verbatim>\<open>update_handles\<close> once per frame, on the same axis; a call that
  raises ends the run.
\<close>

fun update_frames ::
  "(error \<Rightarrow> error option) \<Rightarrow> plot \<Rightarrow> axis \<Rightarrow> ('k \<times> annotation_data \<times> 'r \<times> dict) list
   \<Rightarrow> (error + unit) \<times> plot \<times> axis" where
  "update_frames abbreviated_exception p ax [] = (Inr (), p, ax)"
| "update_frames abbreviated_exception p ax (frame # frames) =
     (case frame of (key, annotation, ranges, style) \<Rightarrow>
        (case update_handles abbreviated_exception p key ax annotation ranges style of
           (Inl e, p', ax') \<Rightarrow> (Inl e, p', ax')
         | (Inr u, p', ax') \<Rightarrow> update_frames abbreviated_exception p' ax' frames))"

text \<open>The identities of the artists on the axis.\<close>

definition live :: "axis \<Rightarrow> nat set" where
  "live ax = set (map fst (artists ax))"

text \<open>
  Identities are unique and were all handed out by the axis; the stored handles are
  distinct artists of the axis. Both hold after \<^verbatim>\<open>__init__\<close> on any axis, where
  the stored list is empty.
\<close>

definition axis_ok :: "axis \<Rightarrow> bool" where
  "axis_ok ax = (distinct (map fst (artists ax)) \<and> list_all (\<lambda>h. h < next_id ax) (map fst (artists ax)))"

definition handles_ok :: "plot \<Rightarrow> axis \<Rightarrow> bool" where
  "handles_ok p ax = (distinct (handles_annotations p) \<and>
                      list_all (\<lambda>h. h \<in> set (map fst (artists ax))) (handles_annotations p))"

text \<open>The draw call for this data returns: the direction of an Arrow is one of the four codes.\<close>

fun draw_returns :: "annotation_data \<Rightarrow> bool" where
  "draw_returns (ArrowData x y text direction points arrowstyle) =
     (lower direction \<in> set [''v'', ''^'', ''>'', ''<''])"
| "draw_returns _ = True"

subsection \<open>LabelsPlot\<close>

text \<open>
  \<^verbatim>\<open>get_data\<close> adds the offsets to the arrays in place, after the tuple
  \<^verbatim>\<open>positions\<close> has been built from the same array objects. Arrays therefore live in
  a store and are named by their addresses.
\<close>

record store =
  cells :: "nat \<Rightarrow> ndarray option"
  next_addr :: nat

definition alloc :: "ndarray \<Rightarrow> store \<Rightarrow> nat \<times> store" where
  "alloc a st = (next_addr st, st\<lparr>cells := (cells st)(next_addr st \<mapsto> a),
                                   next_addr := Suc (next_addr st)\<rparr>)"

text \<open>An offset is a \<^verbatim>\<open>param.Number\<close>: a Python integer or a Python float.\<close>

datatype number = PyInt int | PyFloat real

fun number_value :: "number \<Rightarrow> real" where
  "number_value (PyInt n) = of_int n"
| "number_value (PyFloat r) = r"

text \<open>
  \<^verbatim>\<open>xs += off\<close> on a numpy array computes the sum in the type that the array and the
  number promote to and casts it back into the array under the rule
  \<^verbatim>\<open>same_kind\<close>, which orders the kinds bool, integer, float, complex and refuses to
  go down. So a float goes into a float or complex array only, and an integer into any
  but a boolean array; otherwise numpy raises \<^verbatim>\<open>UFuncTypeError\<close>, a
  \<^verbatim>\<open>TypeError\<close>. A negative integer promotes an unsigned array to a signed or float
  type; it is taken to raise, as it does for items of 64 bits. Adding a number to an
  array of strings, or of any other kind, raises too. Integers are not bounded here, as
  floats are reals.
\<close>

definition same_kind :: "char \<Rightarrow> number \<Rightarrow> bool" where
  "same_kind k off =
     (case off of
        PyFloat r \<Rightarrow> k \<in> set ''fc''
      | PyInt n \<Rightarrow> k \<in> set ''ifc'' \<or> (k = CHR ''u'' \<and> 0 \<le> n))"

definition iadd :: "nat \<Rightarrow> number \<Rightarrow> store \<Rightarrow> error + store" where
  "iadd a off st =
     (case cells st a of
        Some (NumArray k vs) \<Rightarrow>
          (if same_kind k off
           then Inr (st\<lparr>cells := (cells st)(a \<mapsto> NumArray k (map (\<lambda>v. v + number_value off) vs))\<rparr>)
           else Inl TypeError)
      | _ \<Rightarrow> Inl TypeError)"

record labels_plot =
  labels_invert_axes :: bool
  xoffset :: "number option"
  yoffset :: "number option"

text \<open>
  The element: the values of its first two dimensions, the labels of the third as
  printed by the dimension, and the values of the colour dimension when
  \<^verbatim>\<open>color_index\<close> names one.
\<close>

record element =
  xvals :: ndarray
  yvals :: ndarray
  labels :: "string list"
  cdim_vals :: "ndarray option"

text \<open>
  \<^verbatim>\<open>LabelsPlot.get_data\<close>. The host's \<^verbatim>\<open>_apply_transforms\<close> and
  \<^verbatim>\<open>_norm_kwargs\<close> are the functions \<open>apply_transforms\<close> and \<open>norm_kwargs\<close> on
  the style.
\<close>

definition get_data ::
  "(dict \<Rightarrow> dict) \<Rightarrow> (dict \<Rightarrow> dict) \<Rightarrow> labels_plot \<Rightarrow> element \<Rightarrow> dict \<Rightarrow> store
   \<Rightarrow> (error + ((nat \<times> nat \<times> string list \<times> pyval option) \<times> dict)) \<times> store" where
  "get_data apply_transforms norm_kwargs p el style0 st0 =
     (let style1 = apply_transforms style0;
          (xs, st1) = alloc (xvals el) st0;
          (ys, st2) = alloc (yvals el) st1;
          text = labels el;
          positions = (if labels_invert_axes p then (ys, xs) else (xs, ys))
      in case (case xoffset p of Some off \<Rightarrow> iadd xs off st2 | None \<Rightarrow> Inr st2) of
           Inl e \<Rightarrow> (Inl e, st2)
         | Inr st3 \<Rightarrow>
            (case (case yoffset p of Some off \<Rightarrow> iadd ys off st3 | None \<Rightarrow> Inr st3) of
               Inl e \<Rightarrow> (Inl e, st3)
             | Inr st4 \<Rightarrow>
                (let (cs2, style2) = (case cdim_vals el of
                                        Some vals \<Rightarrow> (Some (Arr vals), norm_kwargs style1)
                                      | None \<Rightarrow> (None, style1));
                     (cs3, style3) = (case dict_get style2 ''c'' of
                                        Some c \<Rightarrow> (Some c, dict_del ''c'' style2)
                                      | None \<Rightarrow> (cs2, style2));
                     style4 = (case dict_get style3 ''size'' of
                                 Some v \<Rightarrow> dict_set ''fontsize'' v (dict_del ''size'' style3)
                               | None \<Rightarrow> style3);
                     style5 = (if \<not> dict_contains style4 ''horizontalalignment''
                               then dict_set ''horizontalalignment'' (Val (Str ''center'')) style4
                               else style4);
                     style6 = (if \<not> dict_contains style5 ''verticalalignment''
                               then dict_set ''verticalalignment'' (Val (Str ''center'')) style5
                               else style5)
                 in (Inr ((fst positions, snd positions, text, cs3), style6), st4))))"

text \<open>The elements of an array, as iteration yields them.\<close>

fun elems :: "ndarray \<Rightarrow> scalar list" where
  "elems (NumArray k vs) = map Num vs"
| "elems (StrArray ss) = map Str ss"

fun dtype_kind :: "ndarray \<Rightarrow> char" where
  "dtype_kind (NumArray k vs) = k"
| "dtype_kind (StrArray ss) = CHR ''U''"

text \<open>\<^verbatim>\<open>list(np.unique(a))\<close>: the distinct values, sorted.\<close>

fun np_unique :: "ndarray \<Rightarrow> scalar list" where
  "np_unique (NumArray k vs) = map Num (sort (remdups vs))"
| "np_unique (StrArray ss) = map Str (sort (remdups ss))"

text \<open>\<^verbatim>\<open>list.index\<close>: the position of the first occurrence.\<close>

fun list_index :: "'a list \<Rightarrow> 'a \<Rightarrow> nat option" where
  "list_index [] v = None"
| "list_index (x # xs) v = (if x = v then Some 0 else map_option Suc (list_index xs v))"

text \<open>Division of numpy floats: dividing by zero gives a special value, not an error.\<close>

definition np_true_divide :: "real \<Rightarrow> real \<Rightarrow> cmap_arg" where
  "np_true_divide a b =
     (if b = 0 then (if a = 0 then NaN else if 0 < a then PosInf else NegInf)
      else Fraction (a / b))"

text \<open>Calling the value stored under \<^verbatim>\<open>cmap\<close>.\<close>

definition call_cmap :: "pyval \<Rightarrow> cmap_arg \<Rightarrow> error + pyval" where
  "call_cmap cmap color = (case cmap of Cmap f \<Rightarrow> Inr (Rgba (f color)) | _ \<Rightarrow> Inl TypeError)"

text \<open>
  The value of the local \<^verbatim>\<open>color\<close> of \<^verbatim>\<open>text_spec\<close> that the colormap is
  called with: the two branches on \<^verbatim>\<open>plot_args[-1].dtype.kind in 'if'\<close>.
  \<^verbatim>\<open>vmin\<close> and \<^verbatim>\<open>vmax\<close> are unassigned when there are no colour values.
\<close>

definition color_arg ::
  "ndarray \<Rightarrow> scalar list \<Rightarrow> pyval option \<Rightarrow> pyval option \<Rightarrow> scalar \<Rightarrow> error + cmap_arg" where
  "color_arg cs colors vmin vmax color =
     (if dtype_kind cs \<in> set ''if''
      then (case (color, vmin, vmax) of
              (Num c, Some (Val (Num lo)), Some (Val (Num hi))) \<Rightarrow> Inr (np_true_divide (c - lo) (hi - lo))
            | _ \<Rightarrow> Inl TypeError)
      else (if color \<in> set colors
            then (case list_index colors color of
                    Some i \<Rightarrow> Inr (Index i)
                  | None \<Rightarrow> Inl ValueError)
            else Inr NaN))"

text \<open>\<^verbatim>\<open>{k: v[i] for k, v in vectorized.items()}\<close>\<close>

fun index_vectorized :: "(string \<times> ndarray) list \<Rightarrow> nat \<Rightarrow> error + dict" where
  "index_vectorized [] i = Inr []"
| "index_vectorized ((k, v) # rest) i =
     (if i < length (elems v)
      then (case index_vectorized rest i of
              Inl e \<Rightarrow> Inl e
            | Inr d \<Rightarrow> Inr ((k, Val (elems v ! i)) # d))
      else Inl IndexError)"

text \<open>
  \<^verbatim>\<open>text_spec\<close>, the closure of \<^verbatim>\<open>init_artists\<close>. It assigns to
  \<^verbatim>\<open>plot_kwargs\<close>, which is shared by all calls, so the dictionary is threaded. An
  item has a fourth component exactly when there are colour values.
\<close>

definition text_spec ::
  "pyval option \<Rightarrow> ndarray option \<Rightarrow> scalar list \<Rightarrow> pyval option \<Rightarrow> pyval option \<Rightarrow>
   (string \<times> ndarray) list \<Rightarrow> nat \<Rightarrow> scalar \<times> scalar \<times> string \<times> scalar option \<Rightarrow> dict
   \<Rightarrow> error + ((scalar \<times> scalar \<times> string \<times> dict) \<times> dict)" where
  "text_spec cmap cs colors vmin vmax vectorized i item plot_kwargs =
     (case item of (x, y, text, item3) \<Rightarrow>
        (case (case (item3, cmap, cs) of
                 (Some color, Some cm, Some a) \<Rightarrow>
                   (case color_arg a colors vmin vmax color of
                      Inl e \<Rightarrow> Inl e
                    | Inr c \<Rightarrow>
                        (case call_cmap cm c of
                           Inl e \<Rightarrow> Inl e
                         | Inr rgba \<Rightarrow> Inr (dict_set ''color'' rgba plot_kwargs)))
               | _ \<Rightarrow> Inr plot_kwargs) of
           Inl e \<Rightarrow> Inl e
         | Inr plot_kwargs' \<Rightarrow>
             (case index_vectorized vectorized i of
                Inl e \<Rightarrow> Inl e
              | Inr d \<Rightarrow> Inr ((x, y, text, dict_merge plot_kwargs' d), plot_kwargs'))))"

fun text_specs_from ::
  "pyval option \<Rightarrow> ndarray option \<Rightarrow> scalar list \<Rightarrow> pyval option \<Rightarrow> pyval option \<Rightarrow>
   (string \<times> ndarray) list \<Rightarrow> nat \<Rightarrow> (scalar \<times> scalar \<times> string \<times> scalar option) list \<Rightarrow> dict
   \<Rightarrow> error + (scalar \<times> scalar \<times> string \<times> dict) list" where
  "text_specs_from cmap cs colors vmin vmax vectorized i [] plot_kwargs = Inr []"
| "text_specs_from cmap cs colors vmin vmax vectorized i (item # items) plot_kwargs =
     (case text_spec cmap cs colors vmin vmax vectorized i item plot_kwargs of
        Inl e \<Rightarrow> Inl e
      | Inr (spec, plot_kwargs') \<Rightarrow>
          (case text_specs_from cmap cs colors vmin vmax vectorized (Suc i) items plot_kwargs' of
             Inl e \<Rightarrow> Inl e
           | Inr specs \<Rightarrow> Inr (spec # specs)))"

text \<open>\<^verbatim>\<open>zip(*plot_args)\<close>, with or without the colour values.\<close>

fun zip_args ::
  "scalar list \<Rightarrow> scalar list \<Rightarrow> string list \<Rightarrow> scalar list option
   \<Rightarrow> (scalar \<times> scalar \<times> string \<times> scalar option) list" where
  "zip_args xs ys ts None = map (\<lambda>(x, y, t). (x, y, t, None)) (zip xs (zip ys ts))"
| "zip_args xs ys ts (Some cs) =
     map (\<lambda>(x, y, t, c). (x, y, t, Some c)) (zip xs (zip ys (zip ts cs)))"

fun add_texts :: "(scalar \<times> scalar \<times> string \<times> dict) list \<Rightarrow> axis \<Rightarrow> nat list \<times> axis" where
  "add_texts [] ax = ([], ax)"
| "add_texts ((x, y, text, kwargs) # specs) ax =
     (let (h, ax1) = add_artist (TextArtist x y text kwargs) ax;
          (hs, ax2) = add_texts specs ax1
      in (h # hs, ax2))"

text \<open>\<^verbatim>\<open>LabelsPlot.init_artists\<close>; the result is the list stored under \<^verbatim>\<open>'artist'\<close>.\<close>

definition init_artists ::
  "axis \<Rightarrow> ndarray \<times> ndarray \<times> string list \<times> ndarray option \<Rightarrow> dict \<Rightarrow> (error + nat list) \<times> axis" where
  "init_artists ax plot_args plot_kwargs0 =
     (case plot_args of (xs, ys, text, cs) \<Rightarrow>
        (case (case cs of
                 Some a \<Rightarrow>
                   (let cmap = dict_get plot_kwargs0 ''cmap'';
                        kw1 = dict_del ''cmap'' plot_kwargs0;
                        colors = np_unique a
                    in case dict_get kw1 ''vmin'' of
                         None \<Rightarrow> Inl (KeyError ''vmin'')
                       | Some vmin \<Rightarrow>
                           (case dict_get (dict_del ''vmin'' kw1) ''vmax'' of
                              None \<Rightarrow> Inl (KeyError ''vmax'')
                            | Some vmax \<Rightarrow>
                                Inr (cmap, colors, Some vmin, Some vmax,
                                     dict_del ''vmax'' (dict_del ''vmin'' kw1))))
               | None \<Rightarrow> Inr (None, [], None, None, plot_kwargs0)) of
           Inl e \<Rightarrow> (Inl e, ax)
         | Inr (cmap, colors, vmin, vmax, plot_kwargs) \<Rightarrow>
             (let vectorized = concat (map (\<lambda>kv. case snd kv of Arr v \<Rightarrow> [(fst kv, v)] | _ \<Rightarrow> [])
                                           plot_kwargs)
              in case text_specs_from cmap cs colors vmin vmax vectorized 0
                        (zip_args (elems xs) (elems ys) text (map_option elems cs)) plot_kwargs of
                   Inl e \<Rightarrow> (Inl e, ax)
                 | Inr text_specs \<Rightarrow>
                     (let ax1 = (if text_specs \<noteq> []
                                 then snd (add_artist (Scatter (map (\<lambda>s. fst s) text_specs)
                                                               (map (\<lambda>s. fst (snd s)) text_specs)) ax)
                                 else ax);
                          (hs, ax2) = add_texts text_specs ax1
                      in (Inr hs, ax2)))))"

text \<open>\<^verbatim>\<open>LabelsPlot.teardown_handles\<close>, given the list stored under \<^verbatim>\<open>'artist'\<close>, if any.\<close>

definition teardown_handles :: "nat list option \<Rightarrow> axis \<Rightarrow> error option \<times> axis" where
  "teardown_handles artist ax =
     (case artist of Some hs \<Rightarrow> remove_handles hs ax | None \<Rightarrow> (None, ax))"

section \<open>Properties\<close>

text \<open>
  C9. A Spline whose vertex array is empty draws nothing: the handle list returned is
  empty, no error is raised, and the axis (and the plot) is left exactly as it was, so
  no patch has been added.
\<close>

theorem spline_empty_no_mutation:
  "draw_annotation p ax (SplineData [] codes) opts = (Inr [], p, ax)"
  by (simp add: SplinePlot_draw_annotation_def)

subsection \<open>The dynamic line\<close>

lemma map_of_replace:
  "map_of (map (\<lambda>ia. if fst ia = h then (h, v) else ia) xs) k =
     (if k = h then map_option (\<lambda>_. v) (map_of xs h) else map_of xs k)"
  by (induction xs) auto

lemma map_fst_replace:
  "map fst (map (\<lambda>ia. if fst ia = h then (h, v) else ia) xs) = map fst xs"
  by (induction xs) auto

text \<open>
  C2. Let the line \<open>h\<close> on the axis have slope \<open>m\<close> and intercept \<open>b\<close>, and let the
  x-bounds of the axis be \<open>x0\<close> and \<open>x1\<close>. The callback \<^verbatim>\<open>_update_lim\<close> succeeds and
  stores the data \<open>[x0, x1]\<close>, \<open>[m * x0 + b, m * x1 + b]\<close> in the line; it asks for one
  redraw, of this artist alone, and no redraw of the canvas; every other artist, the
  limits, the callbacks and the identities are as before.
\<close>

theorem update_lim_endpoints:
  assumes "map_of (artists ax) h = Some (ABLine2D m b xd yd kw)"
      and "get_xbound ax = (x0, x1)"
  shows "\<exists>ax'. update_lim h ax = Inr ax'
           \<and> map_of (artists ax') h = Some (ABLine2D m b [x0, x1] [m * x0 + b, m * x1 + b] kw)
           \<and> render_log ax' = render_log ax @ [DrawArtist h]
           \<and> map fst (artists ax') = map fst (artists ax)
           \<and> (\<forall>k. k \<noteq> h \<longrightarrow> map_of (artists ax') k = map_of (artists ax) k)
           \<and> xlim ax' = xlim ax \<and> callbacks ax' = callbacks ax \<and> next_id ax' = next_id ax"
  using assms by (simp add: update_lim_def map_of_replace map_fst_replace Let_def)

theorem update_lim_endpoints_witness:
  "\<exists>ax'. update_lim 0 \<lparr>artists = [(0, ABLine2D 2 1 [] [] [])], next_id = 1, xlim = (5, 3),
                          callbacks = [], render_log = [CanvasDraw]\<rparr> = Inr ax'
         \<and> map_of (artists ax') 0 = Some (ABLine2D 2 1 [3, 5] [7, 11] [])
         \<and> render_log ax' = [CanvasDraw, DrawArtist 0]"
  using update_lim_endpoints
    [of "\<lparr>artists = [(0, ABLine2D 2 1 [] [] [])], next_id = 1, xlim = (5, 3),
          callbacks = [], render_log = [CanvasDraw]\<rparr>" 0 2 1 "[]" "[]" "[]" 3 5]
  by (auto simp add: get_xbound_def)

lemma fresh_id: "axis_ok ax \<Longrightarrow> next_id ax \<notin> set (map fst (artists ax))"
  by (auto simp add: axis_ok_def list_all_iff)

lemma map_of_fresh: "k \<notin> set (map fst xs) \<Longrightarrow> map_of (xs @ [(k, v)]) k = Some v"
  by (induction xs) auto

lemma replace_fresh:
  "k \<notin> set (map fst xs) \<Longrightarrow> map (\<lambda>ia. if fst ia = k then (k, v) else ia) xs = xs"
  by (induction xs) auto

lemma get_xbound_xlim: "xlim ax' = xlim ax \<Longrightarrow> get_xbound ax' = get_xbound ax"
  by (simp add: get_xbound_def)

lemma update_lim_last:
  assumes "k \<notin> set (map fst xs)" and "artists ax = xs @ [(k, ABLine2D m b xd yd kw)]"
  shows "update_lim k ax =
           Inr (ax\<lparr>artists := xs @ [(k, ABLine2D m b [fst (get_xbound ax), snd (get_xbound ax)]
                                       [m * fst (get_xbound ax) + b, m * snd (get_xbound ax) + b] kw)],
                   render_log := render_log ax @ [DrawArtist k]\<rparr>)"
proof -
  have found: "map_of (artists ax) k = Some (ABLine2D m b xd yd kw)"
    using assms by (simp add: map_of_fresh del: map_of_append)
  show ?thesis
    unfolding update_lim_def found
    using assms by (simp add: replace_fresh Let_def)
qed

lemma ABLine2D_init_ok:
  assumes "axis_ok ax"
  shows "ABLine2D_init m b kw ax =
           Inr (next_id ax,
                ax\<lparr>artists := artists ax @
                       [(next_id ax, ABLine2D m b [fst (get_xbound ax), snd (get_xbound ax)]
                                       [m * fst (get_xbound ax) + b, m * snd (get_xbound ax) + b] kw)],
                   next_id := Suc (next_id ax),
                   render_log := render_log ax @ [CanvasDraw, DrawArtist (next_id ax)],
                   callbacks := callbacks ax @
                                  [(''xlim_changed'', next_id ax), (''ylim_changed'', next_id ax)]\<rparr>)"
proof -
  let ?ax2 = "ax\<lparr>artists := artists ax @ [(next_id ax, ABLine2D m b [] [] kw)],
                  next_id := Suc (next_id ax), render_log := render_log ax @ [CanvasDraw]\<rparr>"
  have bound: "get_xbound ?ax2 = get_xbound ax"
    by (rule get_xbound_xlim) simp
  have "update_lim (next_id ax) ?ax2 =
          Inr (?ax2\<lparr>artists := artists ax @
                        [(next_id ax, ABLine2D m b [fst (get_xbound ?ax2), snd (get_xbound ?ax2)]
                            [m * fst (get_xbound ?ax2) + b, m * snd (get_xbound ?ax2) + b] kw)],
                     render_log := render_log ?ax2 @ [DrawArtist (next_id ax)]\<rparr>)"
    by (rule update_lim_last [OF fresh_id [OF assms]]) simp
  then show ?thesis
    unfolding bound by (simp add: ABLine2D_init_def add_artist_def)
qed

subsection \<open>Slope\<close>

text \<open>
  C4. With inverted axes \<^verbatim>\<open>SlopePlot.draw_annotation\<close> computes the transformed pair
  (\<open>1 / slope\<close> and \<open>- (intercept / slope)\<close>, or the pair of infinities for a zero slope)
  in its locals, and then builds the line from the position as given: the one artist
  created has the slope and the intercept of the input, and the handles returned and
  the axis are the same as those of the call with the axes not inverted.
\<close>

theorem slope_inversion_discarded:
  assumes "axis_ok ax" and "invert_axes p"
  shows "slope_locals (invert_axes p) (slope, intercept) =
           (if slope = 0 then (InfPair, intercept)
            else (Scalar (1 / slope), - (intercept / slope)))
       \<and> draw_annotation p ax (SlopeData slope intercept) opts =
           (Inr [next_id ax], p,
            ax\<lparr>artists := artists ax @
                   [(next_id ax, ABLine2D slope intercept [fst (get_xbound ax), snd (get_xbound ax)]
                       [slope * fst (get_xbound ax) + intercept,
                        slope * snd (get_xbound ax) + intercept] opts)],
               next_id := Suc (next_id ax),
               render_log := render_log ax @ [CanvasDraw, DrawArtist (next_id ax)],
               callbacks := callbacks ax @
                              [(''xlim_changed'', next_id ax), (''ylim_changed'', next_id ax)]\<rparr>)
       \<and> fst (draw_annotation p ax (SlopeData slope intercept) opts) =
           fst (draw_annotation (p\<lparr>invert_axes := False\<rparr>) ax (SlopeData slope intercept) opts)
       \<and> snd (snd (draw_annotation p ax (SlopeData slope intercept) opts)) =
           snd (snd (draw_annotation (p\<lparr>invert_axes := False\<rparr>) ax (SlopeData slope intercept) opts))"
  using assms
  by (simp add: slope_locals_def SlopePlot_draw_annotation_def ABLine2D_init_ok Let_def split_def)

theorem slope_inversion_discarded_witness:
  "slope_locals True (2, 4) = (Scalar (1 / 2), - 2)
   \<and> draw_annotation \<lparr>invert_axes = True, handles_annotations = [], warnings = []\<rparr>
        \<lparr>artists = [], next_id = 0, xlim = (0, 1), callbacks = [], render_log = []\<rparr>
        (SlopeData 2 4) [] =
      (Inr [0], \<lparr>invert_axes = True, handles_annotations = [], warnings = []\<rparr>,
       \<lparr>artists = [(0, ABLine2D 2 4 [0, 1] [4, 6] [])], next_id = 1, xlim = (0, 1),
          callbacks = [(''xlim_changed'', 0), (''ylim_changed'', 0)],
          render_log = [CanvasDraw, DrawArtist 0]\<rparr>)
   \<and> snd (snd (draw_annotation \<lparr>invert_axes = True, handles_annotations = [], warnings = []\<rparr>
        \<lparr>artists = [], next_id = 0, xlim = (0, 1), callbacks = [], render_log = []\<rparr>
        (SlopeData 2 4) [])) =
     snd (snd (draw_annotation \<lparr>invert_axes = False, handles_annotations = [], warnings = []\<rparr>
        \<lparr>artists = [], next_id = 0, xlim = (0, 1), callbacks = [], render_log = []\<rparr>
        (SlopeData 2 4) []))"
  using slope_inversion_discarded
    [of "\<lparr>artists = [], next_id = 0, xlim = (0, 1), callbacks = [], render_log = []\<rparr>"
        "\<lparr>invert_axes = True, handles_annotations = [], warnings = []\<rparr>" 2 4 "[]"]
  by (auto simp add: axis_ok_def get_xbound_def simp del: draw_annotation.simps)

text \<open>
  C3. With inverted axes, slope \<open>0\<close> and intercept \<open>1\<close> on an axis with x-bounds
  \<open>0\<close> and \<open>1\<close>, the line drawn has slope \<open>0\<close> and intercept \<open>1\<close> and the
  endpoints \<open>(0, 1)\<close> and \<open>(1, 1)\<close>: it is horizontal, not vertical.
\<close>

theorem slope_inverted_zero_gradient_horizontal:
  "draw_annotation \<lparr>invert_axes = True, handles_annotations = [], warnings = []\<rparr>
        \<lparr>artists = [], next_id = 0, xlim = (0, 1), callbacks = [], render_log = []\<rparr>
        (SlopeData 0 1) [] =
      (Inr [0], \<lparr>invert_axes = True, handles_annotations = [], warnings = []\<rparr>,
       \<lparr>artists = [(0, ABLine2D 0 1 [0, 1] [1, 1] [])], next_id = 1, xlim = (0, 1),
          callbacks = [(''xlim_changed'', 0), (''ylim_changed'', 0)],
          render_log = [CanvasDraw, DrawArtist 0]\<rparr>)"
  by (simp add: slope_locals_def SlopePlot_draw_annotation_def ABLine2D_init_def add_artist_def
        update_lim_def get_xbound_def Let_def)

subsection \<open>Arrow\<close>

lemma lower_codes:
  "lower ''V'' = ''v''" "lower ''^'' = ''^''" "lower ''<'' = ''<''" "lower ''>'' = ''>''" "lower ''X'' = ''x''"
  "lower ''x'' = ''x''"
  by code_simp+

text \<open>
  C10. With the direction lowercased: \<^verbatim>\<open>'v'\<close> creates exactly one annotation with
  the offset \<open>(0, points)\<close>, \<^verbatim>\<open>'^'\<close> with \<open>(0, - points)\<close>, \<^verbatim>\<open>'<'\<close> with
  \<open>(points, 0)\<close> and \<^verbatim>\<open>'>'\<close> with \<open>(- points, 0)\<close>: the handle returned is the one
  artist appended to the axis. For any other direction the call raises
  \<^verbatim>\<open>UnboundLocalError\<close> for \<^verbatim>\<open>xytext\<close> and the axis is unchanged: no artist has
  been created.
\<close>

theorem arrow_direction_offsets:
  "(lower direction = ''v'' \<longrightarrow>
      (\<exists>p' ap topts. draw_annotation p ax (ArrowData x y text direction points arrowstyle) opts =
         (Inr [next_id ax], p',
          ax\<lparr>artists := artists ax @
                 [(next_id ax, AnnotationArtist text (if invert_axes p then (y, x) else (x, y))
                                 (0, points) ap topts)],
             next_id := Suc (next_id ax)\<rparr>)))
 \<and> (lower direction = ''^'' \<longrightarrow>
      (\<exists>p' ap topts. draw_annotation p ax (ArrowData x y text direction points arrowstyle) opts =
         (Inr [next_id ax], p',
          ax\<lparr>artists := artists ax @
                 [(next_id ax, AnnotationArtist text (if invert_axes p then (y, x) else (x, y))
                                 (0, - points) ap topts)],
             next_id := Suc (next_id ax)\<rparr>)))
 \<and> (lower direction = ''<'' \<longrightarrow>
      (\<exists>p' ap topts. draw_annotation p ax (ArrowData x y text direction points arrowstyle) opts =
         (Inr [next_id ax], p',
          ax\<lparr>artists := artists ax @
                 [(next_id ax, AnnotationArtist text (if invert_axes p then (y, x) else (x, y))
                                 (points, 0) ap topts)],
             next_id := Suc (next_id ax)\<rparr>)))
 \<and> (lower direction = ''>'' \<longrightarrow>
      (\<exists>p' ap topts. draw_annotation p ax (ArrowData x y text direction points arrowstyle) opts =
         (Inr [next_id ax], p',
          ax\<lparr>artists := artists ax @
                 [(next_id ax, AnnotationArtist text (if invert_axes p then (y, x) else (x, y))
                                 (- points, 0) ap topts)],
             next_id := Suc (next_id ax)\<rparr>)))
 \<and> (lower direction \<notin> {''v'', ''^'', ''<'', ''>''} \<longrightarrow>
      (\<exists>p'. draw_annotation p ax (ArrowData x y text direction points arrowstyle) opts =
         (Inl (UnboundLocalError ''xytext''), p', ax)))"
  by (auto simp add: ArrowPlot_draw_annotation_def add_artist_def Let_def)

theorem arrow_direction_offsets_witness:
  "(\<exists>p' ap topts. draw_annotation \<lparr>invert_axes = True, handles_annotations = [], warnings = []\<rparr>
        \<lparr>artists = [], next_id = 0, xlim = (0, 1), callbacks = [], render_log = []\<rparr>
        (ArrowData 1 2 ''peak'' ''V'' 40 ''->'') [] =
      (Inr [0], p',
       \<lparr>artists = [(0, AnnotationArtist ''peak'' (2, 1) (0, 40) ap topts)], next_id = 1,
          xlim = (0, 1), callbacks = [], render_log = []\<rparr>))
 \<and> (\<exists>p' ap topts. draw_annotation \<lparr>invert_axes = False, handles_annotations = [], warnings = []\<rparr>
        \<lparr>artists = [], next_id = 0, xlim = (0, 1), callbacks = [], render_log = []\<rparr>
        (ArrowData 1 2 ''peak'' ''^'' 40 ''->'') [] =
      (Inr [0], p',
       \<lparr>artists = [(0, AnnotationArtist ''peak'' (1, 2) (0, - 40) ap topts)], next_id = 1,
          xlim = (0, 1), callbacks = [], render_log = []\<rparr>))
 \<and> (\<exists>p' ap topts. draw_annotation \<lparr>invert_axes = False, handles_annotations = [], warnings = []\<rparr>
        \<lparr>artists = [], next_id = 0, xlim = (0, 1), callbacks = [], render_log = []\<rparr>
        (ArrowData 1 2 ''peak'' ''<'' 40 ''->'') [] =
      (Inr [0], p',
       \<lparr>artists = [(0, AnnotationArtist ''peak'' (1, 2) (40, 0) ap topts)], next_id = 1,
          xlim = (0, 1), callbacks = [], render_log = []\<rparr>))
 \<and> (\<exists>p' ap topts. draw_annotation \<lparr>invert_axes = False, handles_annotations = [], warnings = []\<rparr>
        \<lparr>artists = [], next_id = 0, xlim = (0, 1), callbacks = [], render_log = []\<rparr>
        (ArrowData 1 2 ''peak'' ''>'' 40 ''->'') [] =
      (Inr [0], p',
       \<lparr>artists = [(0, AnnotationArtist ''peak'' (1, 2) (- 40, 0) ap topts)], next_id = 1,
          xlim = (0, 1), callbacks = [], render_log = []\<rparr>))
 \<and> (\<exists>p'. draw_annotation \<lparr>invert_axes = False, handles_annotations = [], warnings = []\<rparr>
        \<lparr>artists = [], next_id = 0, xlim = (0, 1), callbacks = [], render_log = []\<rparr>
        (ArrowData 1 2 ''peak'' ''X'' 40 ''->'') [] =
      (Inl (UnboundLocalError ''xytext''), p',
       \<lparr>artists = [], next_id = 0, xlim = (0, 1), callbacks = [], render_log = []\<rparr>))"
  using
    arrow_direction_offsets [of "''V''" "\<lparr>invert_axes = True, handles_annotations = [], warnings = []\<rparr>"
        "\<lparr>artists = [], next_id = 0, xlim = (0, 1), callbacks = [], render_log = []\<rparr>" 1 2 "''peak''" 40 "''->''" "[]"]
    arrow_direction_offsets [of "''^''" "\<lparr>invert_axes = False, handles_annotations = [], warnings = []\<rparr>"
        "\<lparr>artists = [], next_id = 0, xlim = (0, 1), callbacks = [], render_log = []\<rparr>" 1 2 "''peak''" 40 "''->''" "[]"]
    arrow_direction_offsets [of "''<''" "\<lparr>invert_axes = False, handles_annotations = [], warnings = []\<rparr>"
        "\<lparr>artists = [], next_id = 0, xlim = (0, 1), callbacks = [], render_log = []\<rparr>" 1 2 "''peak''" 40 "''->''" "[]"]
    arrow_direction_offsets [of "''>''" "\<lparr>invert_axes = False, handles_annotations = [], warnings = []\<rparr>"
        "\<lparr>artists = [], next_id = 0, xlim = (0, 1), callbacks = [], render_log = []\<rparr>" 1 2 "''peak''" 40 "''->''" "[]"]
    arrow_direction_offsets [of "''X''" "\<lparr>invert_axes = False, handles_annotations = [], warnings = []\<rparr>"
        "\<lparr>artists = [], next_id = 0, xlim = (0, 1), callbacks = [], render_log = []\<rparr>" 1 2 "''peak''" 40 "''->''" "[]"]
  by (simp add: lower_codes)

subsection \<open>Initialization\<close>





subsection \<open>Updates\<close>

lemma remove_handles_ok:
  assumes "distinct hs" and "set hs \<subseteq> set (map fst (artists ax))"
  shows "remove_handles hs ax =
           (None, ax\<lparr>artists := filter (\<lambda>ia. fst ia \<notin> set hs) (artists ax)\<rparr>)"
  using assms
proof (induction hs arbitrary: ax)
  case Nil
  then show ?case by simp
next
  case (Cons h hs)
  let ?ax1 = "ax\<lparr>artists := filter (\<lambda>ia. fst ia \<noteq> h) (artists ax)\<rparr>"
  from Cons.prems have step: "remove_artist h ax = Inr ?ax1"
    by (simp add: remove_artist_def)
  from Cons.prems have "distinct hs" and "set hs \<subseteq> set (map fst (artists ?ax1))"
    by fastforce+
  then have "remove_handles hs ?ax1 =
               (None, ?ax1\<lparr>artists := filter (\<lambda>ia. fst ia \<notin> set hs) (artists ?ax1)\<rparr>)"
    by (rule Cons.IH)
  moreover have "filter (\<lambda>ia. fst ia \<notin> set hs) (filter (\<lambda>ia. fst ia \<noteq> h) (artists ax)) =
                 filter (\<lambda>ia. fst ia \<notin> set (h # hs)) (artists ax)"
    by (induction "artists ax") (auto intro: filter_cong)
  ultimately show ?case
    using step by simp
qed

text \<open>What a returning draw call does to the axis: it appends the artists it returns.\<close>

lemma draw_annotation_appends:
  assumes "axis_ok ax" and "draw_returns d"
  shows "\<exists>p' ax' new. draw_annotation p ax d opts = (Inr (map fst new), p', ax')
           \<and> artists ax' = artists ax @ new
           \<and> map fst new = [next_id ax ..< next_id ax + length new]
           \<and> next_id ax' = next_id ax + length new
           \<and> handles_annotations p' = handles_annotations p
           \<and> invert_axes p' = invert_axes p"
proof (cases d)
  case (SlopeData m b)
  then show ?thesis
    using assms by (simp add: SlopePlot_draw_annotation_def ABLine2D_init_ok split_def)
next
  case (ArrowData x y label direction points arrowstyle)
  then show ?thesis
    using assms by (auto simp add: ArrowPlot_draw_annotation_def add_artist_def Let_def)
next
  case (SplineData verts codes)
  then show ?thesis
    by (cases verts) (simp_all add: SplinePlot_draw_annotation_def add_artist_def)
qed (simp_all add: VLinePlot_draw_annotation_def HLinePlot_draw_annotation_def
       VSpanPlot_draw_annotation_def HSpanPlot_draw_annotation_def
       TextPlot_draw_annotation_def add_artist_def)


lemma length_filter_handles:
  assumes "distinct (map fst xs)" and "distinct hs" and "set hs \<subseteq> set (map fst xs)"
  shows "length (filter (\<lambda>ia. fst ia \<notin> set hs) xs) + length hs = length xs"
proof -
  have "map fst (filter (\<lambda>ia. fst ia \<in> set hs) xs) = filter (\<lambda>h. h \<in> set hs) (map fst xs)"
    by (simp add: filter_map comp_def)
  moreover have "distinct (filter (\<lambda>h. h \<in> set hs) (map fst xs))"
    using assms(1) by simp
  moreover have "set (filter (\<lambda>h. h \<in> set hs) (map fst xs)) = set hs"
    using assms(3) by auto
  ultimately have "length (map fst (filter (\<lambda>ia. fst ia \<in> set hs) xs)) = card (set hs)"
    by (metis distinct_card)
  then have "length (filter (\<lambda>ia. fst ia \<in> set hs) xs) = length hs"
    using assms(2) by (simp add: distinct_card)
  moreover have "length (filter (\<lambda>ia. fst ia \<in> set hs) xs) +
                 length (filter (\<lambda>ia. \<not> fst ia \<in> set hs) xs) = length xs"
    by (rule sum_length_filter_compl)
  ultimately show ?thesis by simp
qed

lemma update_handles_step:
  assumes ok: "axis_ok ax" and hs: "handles_ok p ax" and d: "draw_returns d"
  shows "\<exists>ax1 p' ax'.
           remove_handles (handles_annotations p) ax = (None, ax1)
         \<and> (handles_annotations p = [] \<longrightarrow> ax1 = ax)
         \<and> live ax1 = live ax - set (handles_annotations p)
         \<and> fst (draw_annotation p ax1 d style) = Inr (handles_annotations p')
         \<and> snd (snd (draw_annotation p ax1 d style)) = ax'
         \<and> update_handles abbreviated_exception p key ax d ranges style = (Inr (), p', ax')
         \<and> distinct (handles_annotations p')
         \<and> live ax' = (live ax - set (handles_annotations p)) \<union> set (handles_annotations p')
         \<and> set (handles_annotations p') \<inter> live ax = {}
         \<and> set (handles_annotations p) \<inter> live ax' = {}
         \<and> length (artists ax') + length (handles_annotations p) =
             length (artists ax) + length (handles_annotations p')
         \<and> axis_ok ax' \<and> handles_ok p' ax'"
proof -
  let ?old = "handles_annotations p"
  let ?ax1 = "ax\<lparr>artists := filter (\<lambda>ia. fst ia \<notin> set ?old) (artists ax)\<rparr>"
  from hs have dist: "distinct ?old" and sub: "set ?old \<subseteq> set (map fst (artists ax))"
    by (auto simp add: handles_ok_def list_all_iff)
  have rem: "remove_handles ?old ax = (None, ?ax1)"
    using dist sub by (rule remove_handles_ok)
  have noop: "?old = [] \<longrightarrow> ?ax1 = ax"
    by simp
  have live1: "live ?ax1 = live ax - set ?old"
    by (auto simp add: live_def)
  have ok1: "axis_ok ?ax1"
    using ok by (auto simp add: axis_ok_def list_all_iff distinct_map_filter)
  from draw_annotation_appends [OF ok1 d, of p style]
  obtain p2 ax2 new where
        draw: "draw_annotation p ?ax1 d style = (Inr (map fst new), p2, ax2)"
    and arts: "artists ax2 = artists ?ax1 @ new"
    and ids: "map fst new = [next_id ?ax1 ..< next_id ?ax1 + length new]"
    and nxt: "next_id ax2 = next_id ?ax1 + length new"
    by blast
  let ?p' = "p2\<lparr>handles_annotations := map fst new\<rparr>"
  have upd: "update_handles abbreviated_exception p key ax d ranges style = (Inr (), ?p', ax2)"
    by (simp add: update_handles_def rem draw)
  have below: "\<forall>h \<in> live ax. h < next_id ax"
    using ok by (simp add: axis_ok_def list_all_iff live_def)
  have newdist: "distinct (map fst new)"
    by (simp add: ids)
  have fresh: "set (map fst new) \<inter> live ax = {}"
    using below by (auto simp add: ids)
  have live2: "live ax2 = (live ax - set ?old) \<union> set (map fst new)"
    using live1 by (auto simp add: live_def arts)
  have "set ?old \<subseteq> live ax"
    using sub by (simp add: live_def)
  then have gone: "set ?old \<inter> live ax2 = {}"
    using fresh unfolding live2 by blast
  have len: "length (artists ax2) + length ?old = length (artists ax) + length (map fst new)"
    using length_filter_handles [of "artists ax" ?old] ok dist sub
    by (simp add: arts axis_ok_def)
  have ok2: "axis_ok ax2"
    using ok1 below fresh live1
    by (auto simp add: axis_ok_def list_all_iff arts nxt ids live_def)
  have hs2: "handles_ok ?p' ax2"
    using newdist by (auto simp add: handles_ok_def list_all_iff arts)
  show ?thesis
    using rem noop live1 draw upd newdist live2 fresh gone len ok2 hs2
    by (intro exI [of _ ?ax1] exI [of _ ?p'] exI [of _ ax2]) simp
qed

lemma update_frames_ok:
  assumes "axis_ok ax" and "handles_ok p ax"
      and "list_all (\<lambda>frame. draw_returns (fst (snd frame))) frames"
  shows "\<exists>p' ax'. update_frames abbreviated_exception p ax frames = (Inr (), p', ax')
           \<and> axis_ok ax' \<and> handles_ok p' ax'"
  using assms
proof (induction frames arbitrary: p ax)
  case Nil
  then show ?case by simp
next
  case (Cons frame frames)
  obtain key d ranges style where frame: "frame = (key, d, ranges, style)"
    by (cases frame) auto
  with Cons.prems have "draw_returns d" by simp
  from update_handles_step [OF Cons.prems(1,2) this, of style abbreviated_exception key ranges]
  obtain p1 ax1 where
        "update_handles abbreviated_exception p key ax d ranges style = (Inr (), p1, ax1)"
    and "axis_ok ax1" and "handles_ok p1 ax1"
    by blast
  moreover from Cons.prems have "list_all (\<lambda>frame. draw_returns (fst (snd frame))) frames"
    by simp
  ultimately show ?case
    using Cons.IH [of ax1 p1] frame by simp
qed

lemma update_frames_append:
  "update_frames abbreviated_exception p ax frames = (Inr (), p0, ax0) \<Longrightarrow>
   update_frames abbreviated_exception p ax (frames @ [(key, d, ranges, style)]) =
     (case update_handles abbreviated_exception p0 key ax0 d ranges style of
        (Inl e, p', ax') \<Rightarrow> (Inl e, p', ax')
      | (Inr u, p', ax') \<Rightarrow> (Inr (), p', ax'))"
  by (induction frames arbitrary: p ax) (auto split: prod.splits sum.splits)

text \<open>
  C1. Start from a plot whose stored handles are distinct artists of the axis (after
  \<^verbatim>\<open>__init__\<close> the list is empty), and let the host make any sequence of
  \<^verbatim>\<open>update_handles\<close> calls whose draw calls return. Then every call succeeds, and
  for the last call of the sequence: the removal loop succeeds and removes exactly the
  handles stored before the call (with none stored it leaves the axis untouched); the
  handles stored after the call are the list that the draw call of this frame returns;
  they are distinct and new, none was on the axis before; no handle of the previous frame
  is on the axis any more; the artists on the axis are those of the other owners and
  the new ones, so nothing accumulates.
\<close>

theorem update_handles_replaces_handles:
  assumes "axis_ok ax" and "handles_ok p ax"
      and "list_all (\<lambda>frame. draw_returns (fst (snd frame))) frames"
      and "draw_returns d"
  shows "\<exists>p0 ax0 ax1 p' ax'.
           update_frames abbreviated_exception p ax frames = (Inr (), p0, ax0)
         \<and> remove_handles (handles_annotations p0) ax0 = (None, ax1)
         \<and> (handles_annotations p0 = [] \<longrightarrow> ax1 = ax0)
         \<and> live ax1 = live ax0 - set (handles_annotations p0)
         \<and> fst (draw_annotation p0 ax1 d style) = Inr (handles_annotations p')
         \<and> snd (snd (draw_annotation p0 ax1 d style)) = ax'
         \<and> update_handles abbreviated_exception p0 key ax0 d ranges style = (Inr (), p', ax')
         \<and> update_frames abbreviated_exception p ax (frames @ [(key, d, ranges, style)]) =
             (Inr (), p', ax')
         \<and> distinct (handles_annotations p')
         \<and> live ax' = (live ax0 - set (handles_annotations p0)) \<union> set (handles_annotations p')
         \<and> set (handles_annotations p') \<inter> live ax0 = {}
         \<and> set (handles_annotations p0) \<inter> live ax' = {}
         \<and> length (artists ax') + length (handles_annotations p0) =
             length (artists ax0) + length (handles_annotations p')
         \<and> axis_ok ax' \<and> handles_ok p' ax'"
proof -
  from update_frames_ok [OF assms(1,2,3), of abbreviated_exception]
  obtain p0 ax0 where
        run: "update_frames abbreviated_exception p ax frames = (Inr (), p0, ax0)"
    and ok0: "axis_ok ax0" and hs0: "handles_ok p0 ax0"
    by blast
  from update_handles_step [OF ok0 hs0 assms(4), of style abbreviated_exception key ranges]
  obtain ax1 p' ax' where step:
        "remove_handles (handles_annotations p0) ax0 = (None, ax1)"
        "handles_annotations p0 = [] \<longrightarrow> ax1 = ax0"
        "live ax1 = live ax0 - set (handles_annotations p0)"
        "fst (draw_annotation p0 ax1 d style) = Inr (handles_annotations p')"
        "snd (snd (draw_annotation p0 ax1 d style)) = ax'"
        "update_handles abbreviated_exception p0 key ax0 d ranges style = (Inr (), p', ax')"
        "distinct (handles_annotations p')"
        "live ax' = (live ax0 - set (handles_annotations p0)) \<union> set (handles_annotations p')"
        "set (handles_annotations p') \<inter> live ax0 = {}"
        "set (handles_annotations p0) \<inter> live ax' = {}"
        "length (artists ax') + length (handles_annotations p0) =
           length (artists ax0) + length (handles_annotations p')"
        "axis_ok ax'" "handles_ok p' ax'"
    by blast
  have "update_frames abbreviated_exception p ax (frames @ [(key, d, ranges, style)]) =
          (Inr (), p', ax')"
    using update_frames_append [OF run, of key d ranges style] step(6) by simp
  with run step show ?thesis
    by blast
qed


theorem update_handles_replaces_handles_witness:
  "(\<exists>p0 ax0 ax1 p' ax'.
      update_frames reraise_abbreviated (AnnotationPlot_init False)
          \<lparr>artists = [], next_id = 0, xlim = (0, 1), callbacks = [], render_log = []\<rparr>
          [(0 :: nat, VSpanData 1 2, (), []), (1, ArrowData 1 2 ''peak'' ''V'' 40 ''->'', (), [])] =
        (Inr (), p0, ax0)
    \<and> remove_handles (handles_annotations p0) ax0 = (None, ax1)
    \<and> (handles_annotations p0 = [] \<longrightarrow> ax1 = ax0)
    \<and> live ax1 = live ax0 - set (handles_annotations p0)
    \<and> fst (draw_annotation p0 ax1 (HLineData 3) []) = Inr (handles_annotations p')
    \<and> snd (snd (draw_annotation p0 ax1 (HLineData 3) [])) = ax'
    \<and> update_handles reraise_abbreviated p0 (2 :: nat) ax0 (HLineData 3) () [] = (Inr (), p', ax')
    \<and> update_frames reraise_abbreviated (AnnotationPlot_init False)
          \<lparr>artists = [], next_id = 0, xlim = (0, 1), callbacks = [], render_log = []\<rparr>
          ([(0 :: nat, VSpanData 1 2, (), []), (1, ArrowData 1 2 ''peak'' ''V'' 40 ''->'', (), [])] @
           [(2, HLineData 3, (), [])]) = (Inr (), p', ax')
    \<and> distinct (handles_annotations p')
    \<and> live ax' = (live ax0 - set (handles_annotations p0)) \<union> set (handles_annotations p')
    \<and> set (handles_annotations p') \<inter> live ax0 = {}
    \<and> set (handles_annotations p0) \<inter> live ax' = {}
    \<and> length (artists ax') + length (handles_annotations p0) =
        length (artists ax0) + length (handles_annotations p')
    \<and> axis_ok ax' \<and> handles_ok p' ax')
   \<and> update_frames reraise_abbreviated (AnnotationPlot_init False)
          \<lparr>artists = [], next_id = 0, xlim = (0, 1), callbacks = [], render_log = []\<rparr>
          [(0 :: nat, VSpanData 1 2, (), []), (1, ArrowData 1 2 ''peak'' ''V'' 40 ''->'', (), []),
           (2, HLineData 3, (), [])] =
       (Inr (), \<lparr>invert_axes = False, handles_annotations = [2], warnings = []\<rparr>,
        \<lparr>artists = [(2, AxHLine 3 [])], next_id = 3, xlim = (0, 1), callbacks = [],
           render_log = []\<rparr>)
   \<and> update_handles swallow (AnnotationPlot_init False) (0 :: nat)
          \<lparr>artists = [(0, AxVLine 7 [])], next_id = 1, xlim = (0, 1), callbacks = [],
             render_log = []\<rparr>
          (HLineData 3) () [] =
       (Inr (), \<lparr>invert_axes = False, handles_annotations = [1], warnings = []\<rparr>,
        \<lparr>artists = [(0, AxVLine 7 []), (1, AxHLine 3 [])], next_id = 2, xlim = (0, 1),
           callbacks = [], render_log = []\<rparr>)"
proof -
  let ?ax = "\<lparr>artists = [], next_id = 0, xlim = (0, 1), callbacks = [], render_log = []\<rparr>"
  let ?other = "\<lparr>artists = [(0, AxVLine 7 [])], next_id = 1, xlim = (0, 1), callbacks = [],
                  render_log = []\<rparr>"
  have ok: "axis_ok ?ax"
    by (simp add: axis_ok_def)
  have hs: "handles_ok (AnnotationPlot_init False) ?ax"
    by (simp add: handles_ok_def AnnotationPlot_init_def)
  have frames: "list_all (\<lambda>frame. draw_returns (fst (snd frame)))
                  [(0 :: nat, VSpanData 1 2, (), []), (1, ArrowData 1 2 ''peak'' ''V'' 40 ''->'', (), [])]"
    by (simp add: lower_codes)
  have d: "draw_returns (HLineData 3)"
    by simp
  have run: "update_frames reraise_abbreviated (AnnotationPlot_init False) ?ax
          [(0 :: nat, VSpanData 1 2, (), []), (1, ArrowData 1 2 ''peak'' ''V'' 40 ''->'', (), []),
           (2, HLineData 3, (), [])] =
       (Inr (), \<lparr>invert_axes = False, handles_annotations = [2], warnings = []\<rparr>,
        \<lparr>artists = [(2, AxHLine 3 [])], next_id = 3, xlim = (0, 1), callbacks = [],
           render_log = []\<rparr>)"
    by (simp add: update_handles_def AnnotationPlot_init_def remove_artist_def
          VSpanPlot_draw_annotation_def ArrowPlot_draw_annotation_def HLinePlot_draw_annotation_def
          add_artist_def lower_codes Let_def dict_contains_def dict_select_def dict_get_def
          dict_merge_def dict_del_def text_style_opts_def arrow_style_opts_def)
  have ok': "axis_ok ?other"
    by (simp add: axis_ok_def)
  have hs': "handles_ok (AnnotationPlot_init False) ?other"
    by (simp add: handles_ok_def AnnotationPlot_init_def)
  have none: "list_all (\<lambda>frame. draw_returns (fst (snd frame)))
                ([] :: (nat \<times> annotation_data \<times> unit \<times> dict) list)"
    by simp
  from update_handles_replaces_handles
         [OF ok' hs' none d, where abbreviated_exception = swallow and key = "0 :: nat"
            and ranges = "()" and style = "[]"]
  obtain ax1 p' ax' where
        "remove_handles [] ?other = (None, ax1)" and "ax1 = ?other"
    and "fst (draw_annotation (AnnotationPlot_init False) ax1 (HLineData 3) []) =
           Inr (handles_annotations p')"
    and "snd (snd (draw_annotation (AnnotationPlot_init False) ax1 (HLineData 3) [])) = ax'"
    and "update_handles swallow (AnnotationPlot_init False) (0 :: nat) ?other (HLineData 3) () [] =
           (Inr (), p', ax')"
    by (auto simp add: AnnotationPlot_init_def)
  then have first: "update_handles swallow (AnnotationPlot_init False) (0 :: nat) ?other
                      (HLineData 3) () [] =
       (Inr (), \<lparr>invert_axes = False, handles_annotations = [1], warnings = []\<rparr>,
        \<lparr>artists = [(0, AxVLine 7 []), (1, AxHLine 3 [])], next_id = 2, xlim = (0, 1),
           callbacks = [], render_log = []\<rparr>)"
    by (auto simp add: update_handles_def HLinePlot_draw_annotation_def add_artist_def
          AnnotationPlot_init_def numeral_2_eq_2)
  show ?thesis
    by (intro conjI, rule update_handles_replaces_handles [OF ok hs frames d], rule run, rule first)
qed

subsection \<open>Labels\<close>

text \<open>
  Where numpy accepts both additions, \<^verbatim>\<open>get_data\<close> returns, and the arrays it
  returns as positions hold, at the end, every x value plus the x offset and every y
  value plus the y offset. With inverted axes the first position array is the array of y
  values and the second the array of x values: the tuple is swapped first and the
  offsets are added in place afterwards, so the swapped arrays carry them.
\<close>

lemma get_data_positions_carry_offsets:
  assumes "xvals el = NumArray kx vx" and "yvals el = NumArray ky vy"
      and "xoffset p = Some xoff" and "yoffset p = Some yoff"
      and "same_kind kx xoff" and "same_kind ky yoff"
  shows "\<exists>a0 a1 cs style' st'.
           get_data apply_transforms norm_kwargs p el style st =
             (Inr ((a0, a1, labels el, cs), style'), st')
         \<and> cells st' a0 = Some (if labels_invert_axes p
                                then NumArray ky (map (\<lambda>v. v + number_value yoff) vy)
                                else NumArray kx (map (\<lambda>v. v + number_value xoff) vx))
         \<and> cells st' a1 = Some (if labels_invert_axes p
                                then NumArray kx (map (\<lambda>v. v + number_value xoff) vx)
                                else NumArray ky (map (\<lambda>v. v + number_value yoff) vy))"
  using assms
  by (simp add: get_data_def alloc_def iadd_def Let_def split_def)

lemma get_data_positions_carry_offsets_example:
  "\<exists>a0 a1 cs style' st'.
      get_data id id
        \<lparr>labels_invert_axes = True, xoffset = Some (PyFloat 10), yoffset = Some (PyInt 100)\<rparr>
        \<lparr>xvals = NumArray CHR ''f'' [1, 2, 3], yvals = NumArray CHR ''i'' [4, 5, 6],
           labels = [''a'', ''b'', ''c''], cdim_vals = None\<rparr>
        [] \<lparr>cells = Map.empty, next_addr = 0\<rparr> =
        (Inr ((a0, a1, [''a'', ''b'', ''c''], cs), style'), st')
    \<and> cells st' a0 = Some (NumArray CHR ''i'' [104, 105, 106])
    \<and> cells st' a1 = Some (NumArray CHR ''f'' [11, 12, 13])"
  using get_data_positions_carry_offsets
    [of "\<lparr>xvals = NumArray CHR ''f'' [1, 2, 3], yvals = NumArray CHR ''i'' [4, 5, 6],
           labels = [''a'', ''b'', ''c''], cdim_vals = None\<rparr>" "CHR ''f''" "[1, 2, 3]"
        "CHR ''i''" "[4, 5, 6]"
        "\<lparr>labels_invert_axes = True, xoffset = Some (PyFloat 10), yoffset = Some (PyInt 100)\<rparr>"
        "PyFloat 10" "PyInt 100" id id "[]" "\<lparr>cells = Map.empty, next_addr = 0\<rparr>"]
  by (simp add: same_kind_def)

text \<open>
  When numpy refuses an addition, \<^verbatim>\<open>get_data\<close> raises and hands no positions on.
\<close>

lemma get_data_offset_refused:
  assumes "xvals el = NumArray kx vx" and "xoffset p = Some xoff" and "\<not> same_kind kx xoff"
  shows "fst (get_data apply_transforms norm_kwargs p el style st) = Inl TypeError"
  using assms
  by (simp add: get_data_def alloc_def iadd_def Let_def split_def)

text \<open>
  C8. For the integer x values \<open>0\<close> and \<open>1\<close>, the integer y values \<open>2\<close> and \<open>3\<close>
  and the configured offsets \<open>1/2\<close> and \<open>1/2\<close>, \<^verbatim>\<open>get_data\<close> raises at the first
  in-place addition: the offsets are applied to no position, both arrays are as the
  element gave them, and nothing is handed on.
\<close>

theorem get_data_integer_positions_float_offset_raises:
  "get_data id id
     \<lparr>labels_invert_axes = False, xoffset = Some (PyFloat (1 / 2)), yoffset = Some (PyFloat (1 / 2))\<rparr>
     \<lparr>xvals = NumArray CHR ''i'' [0, 1], yvals = NumArray CHR ''i'' [2, 3],
        labels = [''a'', ''b''], cdim_vals = None\<rparr>
     [] \<lparr>cells = Map.empty, next_addr = 0\<rparr> =
   (Inl TypeError,
    \<lparr>cells = [0 \<mapsto> NumArray CHR ''i'' [0, 1], 1 \<mapsto> NumArray CHR ''i'' [2, 3]],
       next_addr = 2\<rparr>)"
  by (simp add: get_data_def alloc_def iadd_def same_kind_def Let_def numeral_2_eq_2)

lemma text_spec_colored:
  assumes "color_arg cs colors vmin vmax color = Inr c"
  shows "text_spec (Some (Cmap cmap)) (Some cs) colors vmin vmax vectorized n
           (x, y, label, Some color) plot_kwargs =
         (case index_vectorized vectorized n of
            Inl e \<Rightarrow> Inl e
          | Inr d \<Rightarrow>
              Inr ((x, y, label, dict_merge (dict_set ''color'' (Rgba (cmap c)) plot_kwargs) d),
                   dict_set ''color'' (Rgba (cmap c)) plot_kwargs))"
  using assms by (simp add: text_spec_def call_cmap_def)










text \<open>
  C6. When the kind of the colour array is \<^verbatim>\<open>'i'\<close> or \<^verbatim>\<open>'f'\<close> and
  \<open>vmin\<close> and \<open>vmax\<close> differ, a value \<open>v\<close> is mapped to
  \<open>(v - vmin) / (vmax - vmin)\<close> and the colormap is called with that fraction. Nothing
  is clamped: above \<open>vmax\<close> the fraction is above \<open>1\<close>, below \<open>vmin\<close> it is below
  \<open>0\<close>.
\<close>

theorem continuous_color_normalized:
  assumes "dtype_kind cs \<in> set ''if''" and "vmax \<noteq> vmin"
  shows "color_arg cs colors (Some (Val (Num vmin))) (Some (Val (Num vmax))) (Num v) =
           Inr (Fraction ((v - vmin) / (vmax - vmin)))
       \<and> text_spec (Some (Cmap cmap)) (Some cs) colors (Some (Val (Num vmin))) (Some (Val (Num vmax)))
            vectorized n (x, y, label, Some (Num v)) plot_kwargs =
          (case index_vectorized vectorized n of
             Inl e \<Rightarrow> Inl e
           | Inr d \<Rightarrow>
               Inr ((x, y, label,
                     dict_merge (dict_set ''color''
                       (Rgba (cmap (Fraction ((v - vmin) / (vmax - vmin))))) plot_kwargs) d),
                    dict_set ''color''
                       (Rgba (cmap (Fraction ((v - vmin) / (vmax - vmin))))) plot_kwargs))
       \<and> (vmin < vmax \<and> vmax < v \<longrightarrow> 1 < (v - vmin) / (vmax - vmin))
       \<and> (vmin < vmax \<and> v < vmin \<longrightarrow> (v - vmin) / (vmax - vmin) < 0)"
proof -
  have arg: "color_arg cs colors (Some (Val (Num vmin))) (Some (Val (Num vmax))) (Num v) =
               Inr (Fraction ((v - vmin) / (vmax - vmin)))"
    using assms by (simp add: color_arg_def np_true_divide_def)
  have above: "vmin < vmax \<and> vmax < v \<longrightarrow> 1 < (v - vmin) / (vmax - vmin)"
    by simp
  have below: "vmin < vmax \<and> v < vmin \<longrightarrow> (v - vmin) / (vmax - vmin) < 0"
    by (simp add: divide_neg_pos)
  show ?thesis
    by (intro conjI, rule arg, rule text_spec_colored [OF arg], rule above, rule below)
qed

theorem continuous_color_normalized_witness:
  "color_arg (NumArray CHR ''f'' [0, 5, 15]) [Num 0, Num 5, Num 15]
      (Some (Val (Num 0))) (Some (Val (Num 10))) (Num 5) = Inr (Fraction (1 / 2))
   \<and> color_arg (NumArray CHR ''f'' [0, 5, 15]) [Num 0, Num 5, Num 15]
      (Some (Val (Num 0))) (Some (Val (Num 10))) (Num 15) = Inr (Fraction (3 / 2))"
  using continuous_color_normalized
          [of "NumArray CHR ''f'' [0, 5, 15]" 10 0 "[Num 0, Num 5, Num 15]" 5]
        continuous_color_normalized
          [of "NumArray CHR ''f'' [0, 5, 15]" 10 0 "[Num 0, Num 5, Num 15]" 15]
  by simp

text \<open>The whole of \<^verbatim>\<open>init_artists\<close> on two points coloured by a float dimension.\<close>

lemma init_artists_example:
  "init_artists \<lparr>artists = [], next_id = 0, xlim = (0, 1), callbacks = [], render_log = []\<rparr>
     (NumArray CHR ''f'' [1, 2], NumArray CHR ''f'' [3, 4], [''p'', ''q''],
      Some (NumArray CHR ''f'' [5, 15]))
     [(''cmap'', Cmap cmap), (''vmin'', Val (Num 0)), (''vmax'', Val (Num 10))] =
   (Inr [1, 2],
    \<lparr>artists = [(0, Scatter [Num 1, Num 2] [Num 3, Num 4]),
                 (1, TextArtist (Num 1) (Num 3) ''p'' [(''color'', Rgba (cmap (Fraction (1 / 2))))]),
                 (2, TextArtist (Num 2) (Num 4) ''q'' [(''color'', Rgba (cmap (Fraction (3 / 2))))])],
       next_id = 3, xlim = (0, 1), callbacks = [], render_log = []\<rparr>)"
  by (simp add: init_artists_def dict_get_def dict_del_def text_spec_def color_arg_def
        np_true_divide_def call_cmap_def dict_merge_def add_artist_def Let_def)

end
